theory Spec2Isabelle
  imports Complex_Main
begin

section \<open>DXF to G-code conversion (dxf2gcode.py)\<close>

text \<open>
  A shallow embedding of the class \<open>DXFToGcode\<close> of \<^verbatim>\<open>src/dxf2gcode.py\<close>.
  Python floats are modelled as the reals, the methods of the converter as functions
  that take the converter object and return the updated one, and a raised exception as
  the left summand of a sum type.

  The source appends one formatted text line per G-code word to \<open>self.gcode\<close>. The
  model keeps each line as a value of the datatype \<open>gcode_line\<close>, with the numbers
  before they are formatted to three decimals:
  \<^item> \<open>M5\<close> is the line \<^verbatim>\<open>M5\<close> (the specification's EnergizeOff);
  \<^item> \<open>M4 p\<close> is \<^verbatim>\<open>M4 S{p}\<close> (EnergizeOn);
  \<^item> \<open>G0 x y\<close> is \<^verbatim>\<open>G0 X{x:.3f} Y{y:.3f}\<close> (Rapid);
  \<^item> \<open>G1 x y f\<close> is \<^verbatim>\<open>G1 X.. Y.. F{f}\<close> (Cut-Line);
  \<^item> \<open>G2 x y i j f\<close> and \<open>G3 x y i j f\<close> are the clockwise and the counterclockwise
    arc \<^verbatim>\<open>G2/G3 X.. Y.. I.. J.. F{f}\<close> (Cut-ArcCW, Cut-ArcCCW);
  \<^item> \<open>Text t\<close> is a header or footer block, appended verbatim.
\<close>

subsection \<open>Vectors (the operations of ezdxf's Vec2 that the converter uses)\<close>

datatype py_error = ZeroDivisionError | TypeError

datatype Vec2 = Vec2 (vec_x: real) (vec_y: real)

definition vec_add :: "Vec2 \<Rightarrow> Vec2 \<Rightarrow> Vec2" where
  "vec_add a b = Vec2 (vec_x a + vec_x b) (vec_y a + vec_y b)"

definition vec_sub :: "Vec2 \<Rightarrow> Vec2 \<Rightarrow> Vec2" where
  "vec_sub a b = Vec2 (vec_x a - vec_x b) (vec_y a - vec_y b)"

definition vec_mul :: "Vec2 \<Rightarrow> real \<Rightarrow> Vec2" where
  "vec_mul a k = Vec2 (vec_x a * k) (vec_y a * k)"

definition magnitude :: "Vec2 \<Rightarrow> real" where
  "magnitude a = sqrt ((vec_x a)\<^sup>2 + (vec_y a)\<^sup>2)"

definition distance :: "Vec2 \<Rightarrow> Vec2 \<Rightarrow> real" where
  "distance a b = sqrt ((vec_x a - vec_x b)\<^sup>2 + (vec_y a - vec_y b)\<^sup>2)"

definition orthogonal :: "Vec2 \<Rightarrow> bool \<Rightarrow> Vec2" where
  "orthogonal a ccw = (if ccw then Vec2 (- vec_y a) (vec_x a) else Vec2 (vec_y a) (- vec_x a))"

text \<open>\<open>normalize\<close> multiplies by \<open>1 / magnitude\<close>; the division raises on the zero vector.\<close>

definition normalize :: "Vec2 \<Rightarrow> py_error + Vec2" where
  "normalize a = (if magnitude a = 0 then Inl ZeroDivisionError else Inr (vec_mul a (1 / magnitude a)))"

definition radians :: "real \<Rightarrow> real" where
  "radians deg = deg * pi / 180"

subsection \<open>The converter object\<close>

datatype gcode_line =
    Text string
  | M5
  | M4 int
  | G0 real real
  | G1 real real int
  | G2 real real real real int
  | G3 real real real real int

record DXFToGcode =
  power_S :: int
  feed_rate :: int
  rapid_rate :: int
  gcode :: "gcode_line list"
  current_pos :: Vec2
  laser_on :: bool

definition init :: "int \<Rightarrow> int \<Rightarrow> int \<Rightarrow> DXFToGcode" where
  "init p f r = \<lparr>power_S = p, feed_rate = f, rapid_rate = r, gcode = [],
                current_pos = Vec2 0 0, laser_on = False\<rparr>"

text \<open>The file of a header or footer is \<open>Some\<close> its text, or \<open>None\<close> when the path does not exist.\<close>

definition add_header :: "DXFToGcode \<Rightarrow> string option \<Rightarrow> DXFToGcode" where
  "add_header s header_file =
     (case header_file of Some t \<Rightarrow> s\<lparr>gcode := gcode s @ [Text t]\<rparr> | None \<Rightarrow> s)"

definition add_footer :: "DXFToGcode \<Rightarrow> string option \<Rightarrow> DXFToGcode" where
  "add_footer s footer_file =
     (case footer_file of Some t \<Rightarrow> s\<lparr>gcode := gcode s @ [Text t]\<rparr> | None \<Rightarrow> s)"

definition laser_off :: "DXFToGcode \<Rightarrow> DXFToGcode" where
  "laser_off s = (if laser_on s then s\<lparr>gcode := gcode s @ [M5], laser_on := False\<rparr> else s)"

definition laser_on_cmd :: "DXFToGcode \<Rightarrow> DXFToGcode" where
  "laser_on_cmd s =
     (if \<not> laser_on s then s\<lparr>gcode := gcode s @ [M4 (power_S s)], laser_on := True\<rparr> else s)"

definition rapid_move :: "DXFToGcode \<Rightarrow> real \<Rightarrow> real \<Rightarrow> DXFToGcode" where
  "rapid_move s x y =
     (let s1 = laser_off s
      in s1\<lparr>gcode := gcode s1 @ [G0 x y], current_pos := Vec2 x y\<rparr>)"

definition linear_move :: "DXFToGcode \<Rightarrow> real \<Rightarrow> real \<Rightarrow> DXFToGcode" where
  "linear_move s x y =
     (let s1 = laser_on_cmd s
      in s1\<lparr>gcode := gcode s1 @ [G1 x y (feed_rate s1)], current_pos := Vec2 x y\<rparr>)"

definition arc_move :: "DXFToGcode \<Rightarrow> real \<Rightarrow> real \<Rightarrow> real \<Rightarrow> real \<Rightarrow> bool \<Rightarrow> DXFToGcode" where
  "arc_move s x y cx cy clockwise =
     (let s1 = laser_on_cmd s;
          i = cx - vec_x (current_pos s1);
          j = cy - vec_y (current_pos s1);
          cmd = (if clockwise then G2 else G3)
      in s1\<lparr>gcode := gcode s1 @ [cmd x y i j (feed_rate s1)], current_pos := Vec2 x y\<rparr>)"

subsection \<open>Entities\<close>

text \<open>
  A vertex of an LWPOLYLINE is the tuple \<open>(x, y, start_width, end_width, bulge)\<close>; the
  converter reads the indices 0, 1 and 4. An LWPOLYLINE entity holds its vertices and the
  flag \<open>is_closed\<close>.
\<close>

type_synonym lwpoint = "real \<times> real \<times> real \<times> real \<times> real"

definition pt0 :: "lwpoint \<Rightarrow> real" where
  "pt0 p = fst p"

definition pt1 :: "lwpoint \<Rightarrow> real" where
  "pt1 p = fst (snd p)"

definition pt4 :: "lwpoint \<Rightarrow> real" where
  "pt4 p = snd (snd (snd (snd p)))"

datatype entity =
    LINE Vec2 Vec2
  | CIRCLE Vec2 real
  | ARC Vec2 real real real
  | LWPOLYLINE "lwpoint list" bool
  | OTHER string

definition process_line :: "DXFToGcode \<Rightarrow> Vec2 \<Rightarrow> Vec2 \<Rightarrow> DXFToGcode" where
  "process_line s start end =
     (let s1 = (if distance (current_pos s) start > 0.001
                then rapid_move s (vec_x start) (vec_y start) else s)
      in linear_move s1 (vec_x end) (vec_y end))"

definition process_circle :: "DXFToGcode \<Rightarrow> Vec2 \<Rightarrow> real \<Rightarrow> DXFToGcode" where
  "process_circle s center radius =
     (let start_x = vec_x center + radius;
          start_y = vec_y center;
          s1 = rapid_move s start_x start_y;
          s2 = arc_move s1 (vec_x center - radius) (vec_y center) (vec_x center) (vec_y center) True
      in arc_move s2 start_x start_y (vec_x center) (vec_y center) True)"

definition process_arc :: "DXFToGcode \<Rightarrow> Vec2 \<Rightarrow> real \<Rightarrow> real \<Rightarrow> real \<Rightarrow> DXFToGcode" where
  "process_arc s center radius start_angle_deg end_angle_deg =
     (let start_angle = radians start_angle_deg;
          end_angle = radians end_angle_deg;
          start_x = vec_x center + radius * cos start_angle;
          start_y = vec_y center + radius * sin start_angle;
          end_x = vec_x center + radius * cos end_angle;
          end_y = vec_y center + radius * sin end_angle;
          s1 = (if distance (current_pos s) (Vec2 start_x start_y) > 0.001
                then rapid_move s start_x start_y else s)
      in arc_move s1 end_x end_y (vec_x center) (vec_y center) False)"

text \<open>
  The arc branch of the loop of \<open>process_lwpolyline\<close> (the lines from \<open>p1 = ...\<close> to
  \<open>center = mid + perp * h\<close>): the centre and the radius of the arc through \<open>p1\<close> and
  \<open>p2\<close> with the given bulge. The two divisions that can raise are branches; the
  midpoint divides by the literal \<open>2\<close>. The arithmetic is that of the reals: the rounding
  of Python's doubles is not modelled, and no theorem below is about the numbers this
  function returns.
\<close>

definition bulge_center :: "Vec2 \<Rightarrow> Vec2 \<Rightarrow> real \<Rightarrow> py_error + (Vec2 \<times> real)" where
  "bulge_center p1 p2 bulge =
     (let angle = 4 * arctan bulge;
          dist = distance p1 p2
      in if 2 * sin (angle / 2) = 0 then Inl ZeroDivisionError
         else
           let radius = dist / (2 * sin (angle / 2));
               mid = Vec2 (vec_x (vec_add p1 p2) / 2) (vec_y (vec_add p1 p2) / 2);
               h = radius * cos (angle / 2)
           in case normalize (orthogonal (vec_sub p2 p1) True) of
                Inl e \<Rightarrow> Inl e
              | Inr perp \<Rightarrow> Inr (vec_add mid (vec_mul perp h), radius))"

text \<open>
  The body of the loop for the vertex \<open>point = points[i]\<close> and its successor
  \<open>next_point = points[next_i]\<close>. The source reads the bulge as \<open>first[4]\<close> when \<open>i\<close> is
  \<open>0\<close> and as \<open>points[i][4]\<close> otherwise; \<open>first\<close> is \<open>points[0]\<close>, so both are index 4 of
  \<open>points[i]\<close>.
\<close>

definition lwpolyline_pair :: "DXFToGcode \<Rightarrow> lwpoint \<Rightarrow> lwpoint \<Rightarrow> py_error + DXFToGcode" where
  "lwpolyline_pair s point next_point =
     (let bulge = pt4 point
      in if \<bar>bulge\<bar> < 0.001 then Inr (linear_move s (pt0 next_point) (pt1 next_point))
         else
           let p1 = Vec2 (pt0 point) (pt1 point);
               p2 = Vec2 (pt0 next_point) (pt1 next_point)
           in case bulge_center p1 p2 bulge of
                Inl e \<Rightarrow> Inl e
              | Inr (center, radius) \<Rightarrow>
                  Inr (arc_move s (vec_x p2) (vec_y p2) (vec_x center) (vec_y center) (bulge < 0)))"

function lwpolyline_loop :: "DXFToGcode \<Rightarrow> lwpoint list \<Rightarrow> bool \<Rightarrow> nat \<Rightarrow> py_error + DXFToGcode" where
  "lwpolyline_loop s points is_closed i =
     (if i < length points then
        (let next_i = (i + 1) mod length points
         in if next_i = 0 \<and> \<not> is_closed then Inr s
            else case lwpolyline_pair s (points ! i) (points ! next_i) of
                   Inl e \<Rightarrow> Inl e
                 | Inr s' \<Rightarrow> lwpolyline_loop s' points is_closed (i + 1))
      else Inr s)"
  by pat_completeness auto
termination
  by (relation "measure (\<lambda>(s, points, is_closed, i). length points - i)") auto

declare lwpolyline_loop.simps [simp del]

text \<open>
  \<open>list_points\<close> is the first statement of \<open>process_lwpolyline\<close>,
  \<^verbatim>\<open>points = list(entity.points())\<close>, for an entity with the given vertices. The method
  \<open>points\<close> of ezdxf's LWPolyline is a context manager, written for
  \<^verbatim>\<open>with entity.points() as points\<close>; the object it returns is not iterable, so \<open>list\<close>
  raises \<open>TypeError\<close> whatever the vertices are.
\<close>

definition list_points :: "lwpoint list \<Rightarrow> py_error + lwpoint list" where
  "list_points vertices = Inl TypeError"

text \<open>
  \<open>process_lwpolyline\<close> for an entity with the given vertices and flag. The statements
  after the first are those of the source, for the list \<open>points\<close> the first one would bind.
\<close>

definition process_lwpolyline :: "DXFToGcode \<Rightarrow> lwpoint list \<Rightarrow> bool \<Rightarrow> py_error + DXFToGcode" where
  "process_lwpolyline s vertices is_closed =
     (case list_points vertices of
        Inl e \<Rightarrow> Inl e
      | Inr points \<Rightarrow>
          (case points of
             [] \<Rightarrow> Inr s
           | first # _ \<Rightarrow>
               lwpolyline_loop (rapid_move s (pt0 first) (pt1 first)) points is_closed 0))"

text \<open>The loop of \<open>process_dxf\<close> over the modelspace, with its counter of processed entities.\<close>

fun process_entities :: "DXFToGcode \<Rightarrow> nat \<Rightarrow> entity list \<Rightarrow> py_error + (DXFToGcode \<times> nat)" where
  "process_entities s entity_count [] = Inr (s, entity_count)"
| "process_entities s entity_count (LINE start end # es) =
     process_entities (process_line s start end) (entity_count + 1) es"
| "process_entities s entity_count (CIRCLE center radius # es) =
     process_entities (process_circle s center radius) (entity_count + 1) es"
| "process_entities s entity_count (ARC center radius a0 a1 # es) =
     process_entities (process_arc s center radius a0 a1) (entity_count + 1) es"
| "process_entities s entity_count (LWPOLYLINE vertices is_closed # es) =
     (case process_lwpolyline s vertices is_closed of
        Inl e \<Rightarrow> Inl e
      | Inr s' \<Rightarrow> process_entities s' (entity_count + 1) es)"
| "process_entities s entity_count (OTHER dtype # es) = process_entities s entity_count es"

text \<open>
  \<open>process_dxf\<close> takes the outcome of \<open>ezdxf.readfile\<close>: \<open>Inl msg\<close> when reading raised
  (the file is unreadable or not a valid DXF structure), \<open>Inr es\<close> with the entities of the
  modelspace otherwise. It returns the converter and the boolean the method returns; an
  exception raised while the entities are processed is not caught.
\<close>

definition process_dxf :: "DXFToGcode \<Rightarrow> string + entity list \<Rightarrow> py_error + (DXFToGcode \<times> bool)" where
  "process_dxf s doc =
     (case doc of
        Inl msg \<Rightarrow> Inr (s, False)
      | Inr msp \<Rightarrow>
          (case process_entities s 0 msp of
             Inl e \<Rightarrow> Inl e
           | Inr (s', entity_count) \<Rightarrow> Inr (laser_off s', True)))"

subsection \<open>Properties of a sequence of G-code lines\<close>

text \<open>
  The predicates below read a sequence of lines as the controller would: \<open>M4\<close> energizes
  the tool, \<open>M5\<close> de-energizes it, \<open>G0\<close> is a rapid and \<open>G1\<close>, \<open>G2\<close>, \<open>G3\<close> are cuts.
  The boolean argument is the energization before the first line.
\<close>

fun is_cut :: "gcode_line \<Rightarrow> bool" where
  "is_cut (G1 x y f) = True"
| "is_cut (G2 x y i j f) = True"
| "is_cut (G3 x y i j f) = True"
| "is_cut c = False"

fun energized_after :: "bool \<Rightarrow> gcode_line list \<Rightarrow> bool" where
  "energized_after on [] = on"
| "energized_after on (M4 p # cs) = energized_after True cs"
| "energized_after on (M5 # cs) = energized_after False cs"
| "energized_after on (c # cs) = energized_after on cs"

fun rapids_deenergized :: "bool \<Rightarrow> gcode_line list \<Rightarrow> bool" where
  "rapids_deenergized on [] = True"
| "rapids_deenergized on (G0 x y # cs) = (\<not> on \<and> rapids_deenergized on cs)"
| "rapids_deenergized on (M4 p # cs) = rapids_deenergized True cs"
| "rapids_deenergized on (M5 # cs) = rapids_deenergized False cs"
| "rapids_deenergized on (c # cs) = rapids_deenergized on cs"

fun toggles_change_state :: "bool \<Rightarrow> gcode_line list \<Rightarrow> bool" where
  "toggles_change_state on [] = True"
| "toggles_change_state on (M4 p # cs) = (\<not> on \<and> toggles_change_state True cs)"
| "toggles_change_state on (M5 # cs) = (on \<and> toggles_change_state False cs)"
| "toggles_change_state on (c # cs) = toggles_change_state on cs"

fun no_repeated_toggle :: "bool option \<Rightarrow> gcode_line list \<Rightarrow> bool" where
  "no_repeated_toggle prev [] = True"
| "no_repeated_toggle prev (M4 p # cs) = (prev \<noteq> Some True \<and> no_repeated_toggle (Some True) cs)"
| "no_repeated_toggle prev (M5 # cs) = (prev \<noteq> Some False \<and> no_repeated_toggle (Some False) cs)"
| "no_repeated_toggle prev (Text t # cs) = no_repeated_toggle prev cs"
| "no_repeated_toggle prev (c # cs) = no_repeated_toggle None cs"

fun on_followed_by_cut :: "gcode_line list \<Rightarrow> bool" where
  "on_followed_by_cut [] = True"
| "on_followed_by_cut (M4 p # cs) =
     ((case cs of [] \<Rightarrow> False | c # _ \<Rightarrow> is_cut c) \<and> on_followed_by_cut cs)"
| "on_followed_by_cut (c # cs) = on_followed_by_cut cs"

definition emitted :: "DXFToGcode \<Rightarrow> DXFToGcode \<Rightarrow> gcode_line list" where
  "emitted s s' = drop (length (gcode s)) (gcode s')"

definition well_formed :: "bool \<Rightarrow> gcode_line list \<Rightarrow> bool" where
  "well_formed on out =
     (rapids_deenergized on out \<and> toggles_change_state on out \<and> on_followed_by_cut out)"

definition extends :: "DXFToGcode \<Rightarrow> DXFToGcode \<Rightarrow> bool" where
  "extends s s' =
     (\<exists>out. gcode s' = gcode s @ out \<and> laser_on s' = energized_after (laser_on s) out
        \<and> well_formed (laser_on s) out)"

text \<open>The entities that \<open>process_dxf\<close> hands to \<open>process_lwpolyline\<close>.\<close>

fun is_lwpolyline :: "entity \<Rightarrow> bool" where
  "is_lwpolyline (LWPOLYLINE vertices is_closed) = True"
| "is_lwpolyline e = False"

section \<open>The energization state machine\<close>

subsection \<open>Sequences of lines and their concatenation\<close>

lemma energized_after_append:
  "energized_after on (a @ b) = energized_after (energized_after on a) b"
  by (induction on a rule: energized_after.induct) auto

lemma rapids_deenergized_append:
  "rapids_deenergized on (a @ b) =
     (rapids_deenergized on a \<and> rapids_deenergized (energized_after on a) b)"
  by (induction on a rule: rapids_deenergized.induct) auto

lemma toggles_change_state_append:
  "toggles_change_state on (a @ b) =
     (toggles_change_state on a \<and> toggles_change_state (energized_after on a) b)"
  by (induction on a rule: toggles_change_state.induct) auto

lemma on_followed_by_cut_append:
  "on_followed_by_cut a \<Longrightarrow> on_followed_by_cut b \<Longrightarrow> on_followed_by_cut (a @ b)"
  by (induction a rule: on_followed_by_cut.induct) (auto split: list.splits)

lemma toggles_no_repeat:
  "toggles_change_state on cs \<Longrightarrow> (\<And>b. prev = Some b \<Longrightarrow> b = on) \<Longrightarrow> no_repeated_toggle prev cs"
  by (induction prev cs arbitrary: on rule: no_repeated_toggle.induct) auto

lemma well_formed_append:
  "well_formed on a \<Longrightarrow> well_formed (energized_after on a) b \<Longrightarrow> well_formed on (a @ b)"
  by (simp add: well_formed_def rapids_deenergized_append toggles_change_state_append
      on_followed_by_cut_append)

lemma extends_refl: "extends s s"
  by (simp add: extends_def well_formed_def)

lemma extends_trans:
  assumes "extends s s1" and "extends s1 s2"
  shows "extends s s2"
proof -
  from assms(1) obtain a where a: "gcode s1 = gcode s @ a"
    "laser_on s1 = energized_after (laser_on s) a" "well_formed (laser_on s) a"
    unfolding extends_def by blast
  from assms(2) obtain b where b: "gcode s2 = gcode s1 @ b"
    "laser_on s2 = energized_after (laser_on s1) b" "well_formed (laser_on s1) b"
    unfolding extends_def by blast
  have "gcode s2 = gcode s @ (a @ b)"
    using a(1) b(1) by simp
  moreover have "laser_on s2 = energized_after (laser_on s) (a @ b)"
    using a(2) b(2) by (simp add: energized_after_append)
  moreover have "well_formed (laser_on s) (a @ b)"
    using a(2,3) b(3) by (simp add: well_formed_append)
  ultimately show ?thesis
    unfolding extends_def by blast
qed

lemma extends_laser_off: "extends s (laser_off s)"
  by (simp add: extends_def laser_off_def well_formed_def)

lemma extends_rapid_move: "extends s (rapid_move s x y)"
  by (simp add: extends_def rapid_move_def laser_off_def well_formed_def Let_def)

lemma extends_linear_move: "extends s (linear_move s x y)"
  by (simp add: extends_def linear_move_def laser_on_cmd_def well_formed_def Let_def)

lemma extends_arc_move: "extends s (arc_move s x y cx cy cw)"
  by (simp add: extends_def arc_move_def laser_on_cmd_def well_formed_def Let_def)

lemma extends_process_line: "extends s (process_line s a b)"
  unfolding process_line_def Let_def
  by (auto intro: extends_trans extends_rapid_move extends_linear_move)

lemma extends_process_circle: "extends s (process_circle s c r)"
  unfolding process_circle_def Let_def
  by (blast intro: extends_trans extends_rapid_move extends_arc_move)

lemma extends_process_arc: "extends s (process_arc s c r a0 a1)"
  unfolding process_arc_def Let_def
  by (auto intro: extends_trans extends_rapid_move extends_arc_move)

lemma extends_lwpolyline_pair: "lwpolyline_pair s p q = Inr s' \<Longrightarrow> extends s s'"
  unfolding lwpolyline_pair_def Let_def
  by (auto split: if_splits sum.splits prod.splits intro: extends_linear_move extends_arc_move)

lemma extends_lwpolyline_loop:
  "lwpolyline_loop s points is_closed i = Inr s' \<Longrightarrow> extends s s'"
proof (induction s points is_closed i rule: lwpolyline_loop.induct)
  case (1 s points is_closed i)
  show ?case
  proof (cases "i < length points \<and> \<not> ((i + 1) mod length points = 0 \<and> \<not> is_closed)")
    case False
    with "1.prems" have "s' = s"
      by (auto simp: lwpolyline_loop.simps [of s points is_closed i] Let_def split: if_splits)
    then show ?thesis by (simp add: extends_refl)
  next
    case True
    with "1.prems" obtain s1 where
      pair: "lwpolyline_pair s (points ! i) (points ! ((i + 1) mod length points)) = Inr s1"
      and rest: "lwpolyline_loop s1 points is_closed (i + 1) = Inr s'"
      by (auto simp: lwpolyline_loop.simps [of s points is_closed i] Let_def
          split: if_splits sum.splits)
    from True pair rest have "extends s1 s'"
      by (intro "1.IH") auto
    with extends_lwpolyline_pair [OF pair] show ?thesis
      by (rule extends_trans)
  qed
qed

lemma extends_process_lwpolyline:
  "process_lwpolyline s vertices is_closed = Inr s' \<Longrightarrow> extends s s'"
  unfolding process_lwpolyline_def
  by (auto split: sum.splits list.splits intro: extends_refl
      extends_trans [OF extends_rapid_move extends_lwpolyline_loop])

lemma extends_process_entities:
  "process_entities s n es = Inr (s', n') \<Longrightarrow> extends s s'"
proof (induction s n es rule: process_entities.induct)
  case (1 s n)
  then show ?case by (simp add: extends_refl)
next
  case (2 s n a b es)
  then show ?case by (auto intro: extends_trans [OF extends_process_line])
next
  case (3 s n c r es)
  then show ?case by (auto intro: extends_trans [OF extends_process_circle])
next
  case (4 s n c r a0 a1 es)
  then show ?case by (auto intro: extends_trans [OF extends_process_arc])
next
  case (5 s n points is_closed es)
  then show ?case
    by (auto split: sum.splits intro: extends_trans [OF extends_process_lwpolyline])
next
  case (6 s n dtype es)
  then show ?case by simp
qed

lemma extends_process_dxf:
  "process_dxf s (Inr msp) = Inr (s', ok) \<Longrightarrow> extends s s' \<and> \<not> laser_on s'"
proof -
  assume "process_dxf s (Inr msp) = Inr (s', ok)"
  then obtain s1 n where run: "process_entities s 0 msp = Inr (s1, n)" and s': "s' = laser_off s1"
    unfolding process_dxf_def by (auto split: sum.splits)
  have "extends s s'"
    unfolding s' using extends_process_entities [OF run] extends_laser_off by (rule extends_trans)
  moreover have "\<not> laser_on s'"
    unfolding s' by (simp add: laser_off_def)
  ultimately show ?thesis by simp
qed

lemma extends_emitted:
  "extends s s' \<Longrightarrow> gcode s' = gcode s @ emitted s s' \<and>
     laser_on s' = energized_after (laser_on s) (emitted s s') \<and> well_formed (laser_on s) (emitted s s')"
  by (auto simp: extends_def emitted_def)

subsection \<open>Claims about the sequence a conversion run produces\<close>

text \<open>
  C1. In the sequence of lines that one run of \<open>process_dxf\<close> appends, the tool is never
  energized at a rapid (\<open>G0\<close>): whenever the tool is on, an \<open>M5\<close> comes before the rapid.
  After the last line of the run the tool is de-energized. The run may start from any
  converter state; \<open>init\<close> starts with the tool off and no lines.
\<close>

theorem process_dxf_rapids_off_and_ends_off:
  assumes "process_dxf s (Inr msp) = Inr (s', ok)"
  shows "gcode s' = gcode s @ emitted s s'
     \<and> rapids_deenergized (laser_on s) (emitted s s')
     \<and> \<not> energized_after (laser_on s) (emitted s s')
     \<and> \<not> laser_on s'"
proof -
  from extends_process_dxf [OF assms] have ext: "extends s s'" and off: "\<not> laser_on s'"
    by simp_all
  from extends_emitted [OF ext] off show ?thesis
    by (simp add: well_formed_def)
qed

theorem process_dxf_rapids_off_and_ends_off_witness:
  "process_dxf (init 1000 6000 6000)
     (Inr [LINE (Vec2 1 0) (Vec2 2 0), LINE (Vec2 2 0) (Vec2 2 3), OTHER ''TEXT'',
           LINE (Vec2 0 3) (Vec2 0 0)])
   = Inr (\<lparr>power_S = 1000, feed_rate = 6000, rapid_rate = 6000,
            gcode = [G0 1 0, M4 1000, G1 2 0 6000, G1 2 3 6000, M5, G0 0 3, M4 1000,
                     G1 0 0 6000, M5],
            current_pos = Vec2 0 0, laser_on = False\<rparr>, True)
   \<and> rapids_deenergized False
       [G0 1 0, M4 1000, G1 2 0 6000, G1 2 3 6000, M5, G0 0 3, M4 1000, G1 0 0 6000, M5]
   \<and> \<not> energized_after False
       [G0 1 0, M4 1000, G1 2 0 6000, G1 2 3 6000, M5, G0 0 3, M4 1000, G1 0 0 6000, M5]"
proof -
  have run: "process_dxf (init 1000 6000 6000)
     (Inr [LINE (Vec2 1 0) (Vec2 2 0), LINE (Vec2 2 0) (Vec2 2 3), OTHER ''TEXT'',
           LINE (Vec2 0 3) (Vec2 0 0)])
   = Inr (\<lparr>power_S = 1000, feed_rate = 6000, rapid_rate = 6000,
            gcode = [G0 1 0, M4 1000, G1 2 0 6000, G1 2 3 6000, M5, G0 0 3, M4 1000,
                     G1 0 0 6000, M5],
            current_pos = Vec2 0 0, laser_on = False\<rparr>, True)"
    by (simp add: process_dxf_def init_def process_line_def distance_def rapid_move_def
        linear_move_def laser_off_def laser_on_cmd_def Let_def)
  from process_dxf_rapids_off_and_ends_off [OF run] run show ?thesis
    by (simp add: emitted_def init_def)
qed

text \<open>
  C8. In the sequence of lines that one run of \<open>process_dxf\<close> appends, every \<open>M4\<close> is
  emitted with the tool off and every \<open>M5\<close> with the tool on, so a toggle always changes
  the energization; and no \<open>M4\<close> follows an \<open>M4\<close>, and no \<open>M5\<close> an \<open>M5\<close>, without a cut or
  a rapid between them.
\<close>

theorem process_dxf_toggles_change_state:
  assumes "process_dxf s (Inr msp) = Inr (s', ok)"
  shows "gcode s' = gcode s @ emitted s s'
     \<and> toggles_change_state (laser_on s) (emitted s s')
     \<and> no_repeated_toggle None (emitted s s')"
proof -
  from extends_process_dxf [OF assms] have ext: "extends s s'"
    by simp
  from extends_emitted [OF ext] have pre: "gcode s' = gcode s @ emitted s s'"
    and tog: "toggles_change_state (laser_on s) (emitted s s')"
    by (simp_all add: well_formed_def)
  from tog have "no_repeated_toggle None (emitted s s')"
    by (rule toggles_no_repeat) simp
  with pre tog show ?thesis by simp
qed

theorem process_dxf_toggles_change_state_witness:
  "process_dxf (init 1000 6000 6000)
     (Inr [ARC (Vec2 0 0) 1 0 180, LINE (Vec2 (- 1) 0) (Vec2 (- 1) 1), CIRCLE (Vec2 1 1) 1])
   = Inr (\<lparr>power_S = 1000, feed_rate = 6000, rapid_rate = 6000,
            gcode = [G0 1 0, M4 1000, G3 (- 1) 0 (- 1) 0 6000, G1 (- 1) 1 6000, M5, G0 2 1, M4 1000,
        G2 0 1 (- 1) 0 6000, G2 2 1 1 0 6000, M5],
            current_pos = Vec2 2 1, laser_on = False\<rparr>, True)
   \<and> toggles_change_state False
       [G0 1 0, M4 1000, G3 (- 1) 0 (- 1) 0 6000, G1 (- 1) 1 6000, M5, G0 2 1, M4 1000,
        G2 0 1 (- 1) 0 6000, G2 2 1 1 0 6000, M5]
   \<and> no_repeated_toggle None
       [G0 1 0, M4 1000, G3 (- 1) 0 (- 1) 0 6000, G1 (- 1) 1 6000, M5, G0 2 1, M4 1000,
        G2 0 1 (- 1) 0 6000, G2 2 1 1 0 6000, M5]"
proof -
  have run: "process_dxf (init 1000 6000 6000)
     (Inr [ARC (Vec2 0 0) 1 0 180, LINE (Vec2 (- 1) 0) (Vec2 (- 1) 1), CIRCLE (Vec2 1 1) 1])
   = Inr (\<lparr>power_S = 1000, feed_rate = 6000, rapid_rate = 6000,
            gcode = [G0 1 0, M4 1000, G3 (- 1) 0 (- 1) 0 6000, G1 (- 1) 1 6000, M5, G0 2 1, M4 1000,
        G2 0 1 (- 1) 0 6000, G2 2 1 1 0 6000, M5],
            current_pos = Vec2 2 1, laser_on = False\<rparr>, True)"
    by (simp add: process_dxf_def init_def process_arc_def process_line_def process_circle_def
        radians_def distance_def arc_move_def rapid_move_def linear_move_def laser_off_def
        laser_on_cmd_def Let_def)
  from process_dxf_toggles_change_state [OF run] run show ?thesis
    by (simp add: emitted_def init_def)
qed

text \<open>
  C10. In the sequence of lines that one run of \<open>process_dxf\<close> appends, every \<open>M4\<close> is
  directly followed by a cut (\<open>G1\<close>, \<open>G2\<close> or \<open>G3\<close>): it is never the last line, and
  never directly followed by a rapid or an \<open>M5\<close>.
\<close>

theorem process_dxf_on_followed_by_cut:
  assumes "process_dxf s (Inr msp) = Inr (s', ok)"
  shows "gcode s' = gcode s @ emitted s s' \<and> on_followed_by_cut (emitted s s')"
proof -
  from extends_process_dxf [OF assms] have ext: "extends s s'"
    by simp
  from extends_emitted [OF ext] show ?thesis
    by (simp add: well_formed_def)
qed

theorem process_dxf_on_followed_by_cut_witness:
  "process_dxf (init 500 1200 6000) (Inr [CIRCLE (Vec2 1 1) 1, LINE (Vec2 2 1) (Vec2 4 1)])
   = Inr (\<lparr>power_S = 500, feed_rate = 1200, rapid_rate = 6000,
            gcode = [G0 2 1, M4 500, G2 0 1 (- 1) 0 1200, G2 2 1 1 0 1200, G1 4 1 1200, M5],
            current_pos = Vec2 4 1, laser_on = False\<rparr>, True)
   \<and> on_followed_by_cut
       [G0 2 1, M4 500, G2 0 1 (- 1) 0 1200, G2 2 1 1 0 1200, G1 4 1 1200, M5]"
proof -
  have run: "process_dxf (init 500 1200 6000)
       (Inr [CIRCLE (Vec2 1 1) 1, LINE (Vec2 2 1) (Vec2 4 1)])
   = Inr (\<lparr>power_S = 500, feed_rate = 1200, rapid_rate = 6000,
            gcode = [G0 2 1, M4 500, G2 0 1 (- 1) 0 1200, G2 2 1 1 0 1200, G1 4 1 1200, M5],
            current_pos = Vec2 4 1, laser_on = False\<rparr>, True)"
    by (simp add: process_dxf_def init_def process_circle_def process_line_def distance_def
        arc_move_def rapid_move_def linear_move_def laser_off_def laser_on_cmd_def Let_def)
  from process_dxf_on_followed_by_cut [OF run] run show ?thesis
    by (simp add: emitted_def init_def)
qed

text \<open>
  C6. A circle yields a rapid to \<open>(center.x + radius, center.y)\<close> and exactly two cuts, both
  clockwise arcs (\<open>G2\<close>): the first ends at \<open>(center.x - radius, center.y)\<close>, the second
  returns to the point of the rapid, so the shared points are the same numbers. The circle
  with centre \<open>(5, 5)\<close> and radius \<open>3\<close>, converted from the initial state, gives
  \<open>G0 8 5\<close>, \<open>M4\<close>, \<open>G2\<close> to \<open>(2, 5)\<close> with offset \<open>(-3, 0)\<close>, \<open>G2\<close> to \<open>(8, 5)\<close> with
  offset \<open>(3, 0)\<close>, \<open>M5\<close>.
\<close>

theorem process_circle_two_clockwise_arcs:
  "gcode (process_circle s center radius) =
     gcode s @ (if laser_on s then [M5] else [])
       @ [G0 (vec_x center + radius) (vec_y center),
          M4 (power_S s),
          G2 (vec_x center - radius) (vec_y center) (- radius) 0 (feed_rate s),
          G2 (vec_x center + radius) (vec_y center) radius 0 (feed_rate s)]
   \<and> current_pos (process_circle s center radius) = Vec2 (vec_x center + radius) (vec_y center)
   \<and> process_dxf (init 1000 6000 6000) (Inr [CIRCLE (Vec2 5 5) 3])
       = Inr (\<lparr>power_S = 1000, feed_rate = 6000, rapid_rate = 6000,
                gcode = [G0 8 5, M4 1000, G2 2 5 (- 3) 0 6000, G2 8 5 3 0 6000, M5],
                current_pos = Vec2 8 5, laser_on = False\<rparr>, True)"
  by (simp add: process_dxf_def init_def process_circle_def arc_move_def rapid_move_def
      laser_off_def laser_on_cmd_def Let_def)

theorem process_circle_two_clockwise_arcs_witness:
  "gcode (process_circle (init 800 3000 6000) (Vec2 1 2) 4)
     = [G0 5 2, M4 800, G2 (- 3) 2 (- 4) 0 3000, G2 5 2 4 0 3000]
   \<and> current_pos (process_circle (init 800 3000 6000) (Vec2 1 2) 4) = Vec2 5 2"
  using process_circle_two_clockwise_arcs [of "init 800 3000 6000" "Vec2 1 2" 4]
  by (simp add: init_def)

text \<open>
  C9. When reading the source raises (the entity collection is unreadable or structurally
  invalid), \<open>process_dxf\<close> returns \<open>False\<close> and the converter is unchanged: the run
  appends no line.
\<close>

theorem process_dxf_read_failure:
  "process_dxf s (Inl msg) = Inr (s, False) \<and> emitted s s = []"
  by (simp add: process_dxf_def emitted_def)

theorem process_dxf_read_failure_witness:
  "process_dxf (add_header (init 1000 6000 6000) (Some ''G21'')) (Inl ''not a DXF file'')
     = Inr (\<lparr>power_S = 1000, feed_rate = 6000, rapid_rate = 6000, gcode = [Text ''G21''],
              current_pos = Vec2 0 0, laser_on = False\<rparr>, False)"
  using process_dxf_read_failure [of "add_header (init 1000 6000 6000) (Some ''G21'')"
      "''not a DXF file''"]
  by (simp add: add_header_def init_def)

text \<open>
  C3. \<open>process_line\<close> and \<open>process_arc\<close> emit the rapid only when the start is farther than
  \<open>0.001\<close> from the tool, but \<open>process_circle\<close> calls \<open>rapid_move\<close> without the test.
  With the tool at \<open>(0, 0)\<close>, a line from \<open>(0, 0)\<close> is cut without a rapid, while a circle
  that starts at \<open>(0, 0)\<close> begins with \<open>G0 0 0\<close>.
\<close>

theorem rapid_emitted_with_tool_at_start:
  "distance (current_pos (init 1000 6000 6000)) (Vec2 0 0) = 0
   \<and> process_dxf (init 1000 6000 6000) (Inr [LINE (Vec2 0 0) (Vec2 10 0)])
       = Inr (\<lparr>power_S = 1000, feed_rate = 6000, rapid_rate = 6000,
                gcode = [M4 1000, G1 10 0 6000, M5],
                current_pos = Vec2 10 0, laser_on = False\<rparr>, True)
   \<and> process_dxf (init 1000 6000 6000) (Inr [CIRCLE (Vec2 (- 3) 0) 3])
       = Inr (\<lparr>power_S = 1000, feed_rate = 6000, rapid_rate = 6000,
                gcode = [G0 0 0, M4 1000, G2 (- 6) 0 (- 3) 0 6000, G2 0 0 3 0 6000, M5],
                current_pos = Vec2 0 0, laser_on = False\<rparr>, True)"
  by (simp add: process_dxf_def init_def process_circle_def process_line_def distance_def
      arc_move_def rapid_move_def linear_move_def laser_off_def laser_on_cmd_def Let_def)

section \<open>Polylines\<close>

text \<open>
  The first statement of \<open>process_lwpolyline\<close> raises for every LWPOLYLINE, and
  \<open>process_dxf\<close> does not catch the exception: a modelspace that holds an LWPOLYLINE is
  not converted.
\<close>

lemma process_lwpolyline_raises:
  "process_lwpolyline s vertices is_closed = Inl TypeError"
  by (simp add: process_lwpolyline_def list_points_def)

lemma process_entities_polyline_raises:
  "\<exists>e \<in> set es. is_lwpolyline e \<Longrightarrow> process_entities s n es = Inl TypeError"
  by (induction s n es rule: process_entities.induct)
    (simp_all add: process_lwpolyline_raises)

lemma process_dxf_polyline_raises:
  "\<exists>e \<in> set msp. is_lwpolyline e \<Longrightarrow> process_dxf s (Inr msp) = Inl TypeError"
  by (simp add: process_dxf_def process_entities_polyline_raises)

lemma process_entities_returns:
  "\<forall>e \<in> set es. \<not> is_lwpolyline e \<Longrightarrow> \<exists>s' n'. process_entities s n es = Inr (s', n')"
  by (induction s n es rule: process_entities.induct) simp_all

lemma process_dxf_returns:
  assumes "\<forall>e \<in> set msp. \<not> is_lwpolyline e"
  shows "\<exists>s'. process_dxf s (Inr msp) = Inr (s', True)"
proof -
  from process_entities_returns [OF assms] obtain s1 n where
    "process_entities s 0 msp = Inr (s1, n)"
    by blast
  then show ?thesis
    by (simp add: process_dxf_def)
qed


subsection \<open>Claims about polylines\<close>

text \<open>
  C7. The loop of \<open>process_lwpolyline\<close> is written to emit one cut per vertex pair, but the
  statement before it raises \<open>TypeError\<close>: the closed polyline with the three vertices
  \<open>(0, 0)\<close>, \<open>(1, 0)\<close>, \<open>(1, 1)\<close> yields no line at all instead of three cuts, and the same
  polyline left open yields none instead of two; the conversion of the modelspace that
  holds it ends with the exception.
\<close>

theorem polyline_yields_no_segment:
  "process_lwpolyline (init 1000 6000 6000)
       [(0, 0, 0, 0, 0), (1, 0, 0, 0, 0), (1, 1, 0, 0, 0)] True = Inl TypeError
   \<and> process_lwpolyline (init 1000 6000 6000)
       [(0, 0, 0, 0, 0), (1, 0, 0, 0, 0), (1, 1, 0, 0, 0)] False = Inl TypeError
   \<and> process_dxf (init 1000 6000 6000)
       (Inr [LWPOLYLINE [(0, 0, 0, 0, 0), (1, 0, 0, 0, 0), (1, 1, 0, 0, 0)] True])
       = Inl TypeError"
  by (simp add: process_dxf_def process_lwpolyline_raises)



end
